theory Spec2Isabelle
  imports Main "HOL-Library.Sublist"
begin

section \<open>Strings of the host language\<close>

text \<open>
  A JavaScript string is modelled by its UTF-8 bytes: an Isabelle \<open>string\<close> is a list of
  8-bit characters. Every pattern the code searches for is ASCII, so \<open>startsWith\<close>,
  \<open>includes\<close> and \<open>replace\<close> on the bytes agree with the same operations on UTF-16 code
  units. A string with a lone surrogate has no UTF-8 form and cannot be written here; the
  strings the code receives (attribute values from the HTML rewriter, serialised URLs) never
  hold one. \<open>valid_utf8\<close> tells the byte lists that stand for a string.
\<close>

definition startsWith :: "string \<Rightarrow> string \<Rightarrow> bool" where
  "startsWith s p = prefix p s"

fun includes_str :: "string \<Rightarrow> string \<Rightarrow> bool" where
  "includes_str [] p = (p = [])"
| "includes_str (c # cs) p = (prefix p (c # cs) \<or> includes_str cs p)"

text \<open>\<open>String.prototype.replace\<close> with a string pattern: only the first occurrence is
  replaced. The replacement is taken literally; the code only ever replaces by the empty
  string.\<close>

fun replace :: "string \<Rightarrow> string \<Rightarrow> string \<Rightarrow> string" where
  "replace [] p r = (if p = [] then r else [])"
| "replace (c # cs) p r =
     (if prefix p (c # cs) then r @ drop (length p) (c # cs) else c # replace cs p r)"

definition toLowerCase_char :: "char \<Rightarrow> char" where
  "toLowerCase_char c =
     (if (65::nat) \<le> of_char c \<and> of_char c \<le> (90::nat) then char_of (of_char c + (32::nat)) else c)"

definition toLowerCase :: "string \<Rightarrow> string" where
  "toLowerCase s = map toLowerCase_char s"

subsection \<open>UTF-8\<close>

definition leading_ones :: "char \<Rightarrow> nat" where
  "leading_ones c =
     (let b = (of_char c :: nat) in
      if b < 0x80 then 0 else if b < 0xC0 then 1 else if b < 0xE0 then 2
      else if b < 0xF0 then 3 else if b < 0xF8 then 4 else 5)"

definition cont :: "char \<Rightarrow> bool" where
  "cont c = ((0x80::nat) \<le> of_char c \<and> of_char c \<le> (0xBF::nat))"

definition between :: "nat \<Rightarrow> char \<Rightarrow> nat \<Rightarrow> bool" where
  "between lo c hi = (lo \<le> of_char c \<and> of_char c \<le> hi)"

text \<open>The well-formed multi-byte sequences of one code point (no overlong form, no
  surrogate, nothing above U+10FFFF).\<close>

fun valid_seq :: "string \<Rightarrow> bool" where
  "valid_seq [a, b] = (between 0xC2 a 0xDF \<and> cont b)"
| "valid_seq [a, b, c] =
     ((between 0xE0 a 0xE0 \<and> between 0xA0 b 0xBF
       \<or> between 0xE1 a 0xEC \<and> cont b
       \<or> between 0xED a 0xED \<and> between 0x80 b 0x9F
       \<or> between 0xEE a 0xEF \<and> cont b) \<and> cont c)"
| "valid_seq [a, b, c, d] =
     ((between 0xF0 a 0xF0 \<and> between 0x90 b 0xBF
       \<or> between 0xF1 a 0xF3 \<and> cont b
       \<or> between 0xF4 a 0xF4 \<and> between 0x80 b 0x8F) \<and> cont c \<and> cont d)"
| "valid_seq _ = False"

fun valid_utf8 :: "string \<Rightarrow> bool" where
  "valid_utf8 [] = True"
| "valid_utf8 (c # cs) =
     (if leading_ones c = 0 then valid_utf8 cs
      else leading_ones c - 1 \<le> length cs
           \<and> valid_seq (c # take (leading_ones c - 1) cs)
           \<and> valid_utf8 (drop (leading_ones c - 1) cs))"

section \<open>encodeURIComponent and decodeURIComponent\<close>

datatype js_error = URIError string | TypeError string | RangeError string

fun message :: "js_error \<Rightarrow> string" where
  "message (URIError m) = m"
| "message (TypeError m) = m"
| "message (RangeError m) = m"

definition unreserved :: "char \<Rightarrow> bool" where
  "unreserved c =
     (between 65 c 90 \<or> between 97 c 122 \<or> between 48 c 57
      \<or> c \<in> set (''-_.!~*()'' @ [CHR 0x27]))"

definition hexdigit :: "nat \<Rightarrow> char" where
  "hexdigit n = ''0123456789ABCDEF'' ! n"

definition hexval :: "char \<Rightarrow> nat option" where
  "hexval c =
     (if between 48 c 57 then Some (of_char c - 48)
      else if between 65 c 70 then Some (of_char c - 55)
      else if between 97 c 102 then Some (of_char c - 87)
      else None)"

definition hex_byte :: "char \<Rightarrow> char \<Rightarrow> char option" where
  "hex_byte h l =
     (case hexval h of None \<Rightarrow> None
      | Some x \<Rightarrow> (case hexval l of None \<Rightarrow> None | Some y \<Rightarrow> Some (char_of (16 * x + y))))"

definition encode_char :: "char \<Rightarrow> string" where
  "encode_char c =
     (if unreserved c then [c]
      else [CHR ''%'', hexdigit (of_char c div 16), hexdigit (of_char c mod 16)])"

text \<open>Every code point outside the unreserved set is written as the \<open>%XX\<close> escapes of its
  UTF-8 bytes; on the byte form of a string this is a map over the bytes.\<close>

definition encodeURIComponent :: "string \<Rightarrow> string" where
  "encodeURIComponent s = concat (map encode_char s)"

text \<open>\<open>read_octets n s\<close> reads \<open>n\<close> further escapes \<open>%XX\<close> from the front of \<open>s\<close>.\<close>

fun read_octets :: "nat \<Rightarrow> string \<Rightarrow> (string \<times> string) option" where
  "read_octets 0 s = Some ([], s)"
| "read_octets (Suc n) (p # h # l # s) =
     (if p = CHR ''%'' then
        (case hex_byte h l of None \<Rightarrow> None
         | Some b \<Rightarrow> (case read_octets n s of None \<Rightarrow> None
                      | Some (bs, r) \<Rightarrow> Some (b # bs, r)))
      else None)"
| "read_octets (Suc n) _ = None"

text \<open>The abstract operation Decode of ECMAScript with an empty reserved set; \<open>None\<close> is
  the URIError.\<close>

function Decode :: "string \<Rightarrow> string option" where
  "Decode [] = Some []"
| "Decode (c # cs) =
     (if c \<noteq> CHR ''%'' then map_option ((#) c) (Decode cs)
      else (case cs of
              h # l # rest \<Rightarrow>
                (case hex_byte h l of
                   None \<Rightarrow> None
                 | Some b \<Rightarrow>
                     if leading_ones b = 0 then map_option ((#) b) (Decode rest)
                     else if leading_ones b = 1 \<or> leading_ones b > 4 then None
                     else (case read_octets (leading_ones b - 1) rest of
                             None \<Rightarrow> None
                           | Some (bs, rest') \<Rightarrow>
                               if valid_seq (b # bs)
                               then map_option ((@) (b # bs)) (Decode rest')
                               else None))
            | _ \<Rightarrow> None))"
  by pat_completeness auto
termination
proof (relation "measure length")
  show "wf (measure length)" by simp
next
  fix c :: char and cs :: string
  assume "c \<noteq> CHR ''%''"
  then show "(cs, c # cs) \<in> measure length" by simp
next
  fix c h l :: char and cs list rest :: string and b :: char
  assume "cs = h # list" "list = l # rest"
  then show "(rest, c # cs) \<in> measure length" by simp
next
  fix c h l b :: char and cs list rest bs rest' :: string and x :: "string \<times> string"
  assume shape: "cs = h # list" "list = l # rest"
    and read: "read_octets (leading_ones b - 1) rest = Some x" "(bs, rest') = x"
  have shorter: "length r \<le> length s" if "read_octets n s = Some (ys, r)" for n s ys r
    using that
  proof (induction n s arbitrary: ys r rule: read_octets.induct)
    case (2 n p h l s)
    then show ?case
      by (fastforce split: if_splits option.splits prod.splits)
  qed simp_all
  from read have "length rest' \<le> length rest"
    using shorter [of "leading_ones b - 1" rest bs rest'] by simp
  with shape show "(rest', c # cs) \<in> measure length" by simp
qed

definition decodeURIComponent :: "string \<Rightarrow> js_error + string" where
  "decodeURIComponent s =
     (case Decode s of None \<Rightarrow> Inl (URIError ''URI malformed'') | Some r \<Rightarrow> Inr r)"

section \<open>Client bundle: \<open>URLUtils\<close> (public/cep.js)\<close>

definition proxyEndpoint :: string where
  "proxyEndpoint = ''/proxy/''"

text \<open>
  \<open>new URL(url, window.location.origin).href\<close> is the URL parser and serialiser of the
  host. The functions that call it take it as the parameter \<open>href\<close>; \<open>None\<close> is the
  TypeError of the constructor, which \<open>encode\<close> catches.
\<close>

definition URLUtils_encode :: "(string \<Rightarrow> string option) \<Rightarrow> string \<Rightarrow> string" where
  "URLUtils_encode href url =
     (case href url of Some absolute \<Rightarrow> encodeURIComponent absolute | None \<Rightarrow> url)"

definition URLUtils_decode :: "string \<Rightarrow> string" where
  "URLUtils_decode encoded =
     (case decodeURIComponent encoded of Inr decoded \<Rightarrow> decoded | Inl e \<Rightarrow> encoded)"

definition URLUtils_rewrite :: "(string \<Rightarrow> string option) \<Rightarrow> string \<Rightarrow> string" where
  "URLUtils_rewrite href url =
     (if url = [] \<or> startsWith url ''data:'' \<or> startsWith url ''javascript:''
         \<or> startsWith url ''blob:''
      then url
      else proxyEndpoint @ URLUtils_encode href url)"

text \<open>
  The serialisation the URL Standard gives at the inputs the examples of this theory use:
  the empty path of an http(s) URL is written \<open>/\<close>, and a URL already in that form is
  left as it is. The examples evaluate it at these inputs only.
\<close>

definition href_sample :: "string \<Rightarrow> string option" where
  "href_sample url =
     (if url = ''https://example.com'' then Some ''https://example.com/''
      else if url = ''https://example.com/x'' then Some ''https://example.com/x''
      else None)"

section \<open>Edge function (api/proxy.js)\<close>

subsection \<open>Configuration\<close>

record dev_features =
  eruda :: "bool option"
  customTheme :: "bool option"

record edge_config =
  DEV_FEATURES :: "dev_features option"
  ENCODING_KEY :: string
  BLOCKLIST :: "string list"

definition getEdgeConfig :: edge_config where
  "getEdgeConfig =
     \<lparr>DEV_FEATURES = Some \<lparr>eruda = Some True, customTheme = Some False\<rparr>,
      ENCODING_KEY = ''comet-proxy-v1'',
      BLOCKLIST = []\<rparr>"

subsection \<open>Elements of the HTML rewriter\<close>

text \<open>
  An element as a handler sees it: its tag name, its attributes in document order, and the
  raw HTML that handlers have appended as its last children.
\<close>

record element =
  tagName :: string
  attributes :: "(string \<times> string) list"
  appended :: "string list"

definition getAttribute :: "element \<Rightarrow> string \<Rightarrow> string option" where
  "getAttribute el name = map_of (attributes el) name"

fun set_attr :: "(string \<times> string) list \<Rightarrow> string \<Rightarrow> string \<Rightarrow> (string \<times> string) list" where
  "set_attr [] name v = [(name, v)]"
| "set_attr ((k, w) # as) name v =
     (if k = name then (k, v) # as else (k, w) # set_attr as name v)"

definition setAttribute :: "element \<Rightarrow> string \<Rightarrow> string \<Rightarrow> element" where
  "setAttribute el name v = el\<lparr>attributes := set_attr (attributes el) name v\<rparr>"

definition append_html :: "element \<Rightarrow> string \<Rightarrow> element" where
  "append_html el content = el\<lparr>appended := appended el @ [content]\<rparr>"

subsection \<open>\<open>ElementHandler\<close>\<close>

definition rewriteUrl :: "string \<Rightarrow> string" where
  "rewriteUrl url =
     (if url = [] \<or> startsWith url ''data:'' \<or> startsWith url ''javascript:'' then url
      else ''/proxy/'' @ encodeURIComponent url)"

definition attrs :: "string list" where
  "attrs = [''href'', ''src'', ''action'', ''data'']"

definition rewrite_attr :: "element \<Rightarrow> string \<Rightarrow> element" where
  "rewrite_attr el attr =
     (case getAttribute el attr of
        None \<Rightarrow> el
      | Some v \<Rightarrow> if v \<noteq> [] then setAttribute el attr (rewriteUrl v) else el)"

definition ElementHandler_element :: "element \<Rightarrow> element" where
  "ElementHandler_element el = foldl rewrite_attr el attrs"

subsection \<open>\<open>HeadHandler\<close> and \<open>BodyHandler\<close>\<close>

definition bootstrap_script :: string where
  \<open>bootstrap_script = ''<script src="/cep.js"></script>''\<close>

definition eruda_script :: string where
  \<open>eruda_script =
     ''<script src="https://cdn.jsdelivr.net/npm/eruda@3.0.1/eruda.min.js"></script>''\<close>

definition debug_trigger :: string where
  \<open>debug_trigger =
     ''<div id="cep-debug-trigger" style="position:fixed;bottom:10px;right:10px;z-index:999999;">''
     @ [CHR 0x0A] @
     ''          <button onclick="window.comet && window.comet.activateEruda()" ''
     @ [CHR 0x0A] @
     ''                  style="width:40px;height:40px;border-radius:50%;background:#f44336;color:white;border:none;cursor:pointer;box-shadow:0 2px 10px rgba(0,0,0,0.3);font-size:20px;">''
     @ [CHR 0x0A] @
     ''            '' @ [CHR 0xF0, CHR 0x9F, CHR 0x90, CHR 0x9B]
     @ [CHR 0x0A] @
     ''          </button>''
     @ [CHR 0x0A] @
     ''        </div>''\<close>

text \<open>\<open>this.config.DEV_FEATURES || {}\<close>: an absent object is one with no flag set.\<close>

definition devFeatures :: "edge_config \<Rightarrow> dev_features" where
  "devFeatures config =
     (case DEV_FEATURES config of
        Some d \<Rightarrow> d
      | None \<Rightarrow> \<lparr>eruda = None, customTheme = None\<rparr>)"

definition HeadHandler_element :: "edge_config \<Rightarrow> element \<Rightarrow> element" where
  "HeadHandler_element config el =
     (let el1 = append_html el bootstrap_script
      in if eruda (devFeatures config) \<noteq> Some False then append_html el1 eruda_script
         else el1)"

definition BodyHandler_element :: "edge_config \<Rightarrow> element \<Rightarrow> element" where
  "BodyHandler_element config el =
     (if eruda (devFeatures config) \<noteq> Some False then append_html el debug_trigger
      else el)"

subsection \<open>The HTML rewriter\<close>

text \<open>
  \<open>HTMLRewriter\<close> is the streaming parser of the host. A document is the sequence of what
  the parser reports: start tags, with the tag name and the attribute names in lower case,
  and the bytes in between (text, end tags, comments), which no handler of this program
  sees. For every start tag the rewriter builds the element and calls, in the order of
  registration, the handler of every selector that matches; a selector here is a list of
  tag names.
\<close>

datatype token = StartTag string "(string \<times> string) list" | Chars string

datatype out_token = OutTag element | OutChars string

type_synonym registration = "string list \<times> (element \<Rightarrow> element)"

definition run_handler :: "element \<Rightarrow> registration \<Rightarrow> element" where
  "run_handler el reg = (if tagName el \<in> set (fst reg) then snd reg el else el)"

fun transform_token :: "registration list \<Rightarrow> token \<Rightarrow> out_token" where
  "transform_token regs (StartTag tag as) =
     OutTag (foldl run_handler \<lparr>tagName = tag, attributes = as, appended = []\<rparr> regs)"
| "transform_token regs (Chars s) = OutChars s"

definition rewriter :: "edge_config \<Rightarrow> registration list" where
  "rewriter edgeConfig =
     [([''head''], HeadHandler_element edgeConfig),
      ([''body''], BodyHandler_element edgeConfig),
      ([''a'', ''link'', ''script'', ''img'', ''iframe'', ''form''], ElementHandler_element)]"

subsection \<open>Headers and responses\<close>

text \<open>A \<open>Headers\<close> object: names are kept in lower case, one value for each name.\<close>

type_synonym headers = "(string \<times> string) list"

definition headers_get :: "headers \<Rightarrow> string \<Rightarrow> string option" where
  "headers_get h name = map_of h (toLowerCase name)"

definition headers_set :: "headers \<Rightarrow> string \<Rightarrow> string \<Rightarrow> headers" where
  "headers_set h name v = set_attr h (toLowerCase name) v"

definition new_Headers :: "(string \<times> string) list \<Rightarrow> headers" where
  "new_Headers init = foldl (\<lambda>h (name, v). headers_set h name v) [] init"

text \<open>A body is absent (\<open>null\<close>), a string given to the constructor, the stream of an
  upstream response, or the stream the rewriter makes of one.\<close>

datatype response_body =
  NoBody | Text string | Stream "token list" | Rewritten "out_token list"

record response =
  status :: nat
  headers :: headers
  body :: response_body

text \<open>\<open>new Response(text, {status, headers})\<close>: a body given as a string gets the content
  type \<open>text/plain;charset=UTF-8\<close> unless the headers name one. The program calls it with
  the statuses 400 and 500, which the constructor accepts.\<close>

definition new_Response_text :: "string \<Rightarrow> nat \<Rightarrow> (string \<times> string) list \<Rightarrow> response" where
  "new_Response_text text st init =
     (let h = new_Headers init
      in \<lparr>status = st,
          headers = (if headers_get h ''content-type'' = None
                     then headers_set h ''content-type'' ''text/plain;charset=UTF-8'' else h),
          body = Text text\<rparr>)"

text \<open>
  \<open>new Response(body, {status, headers})\<close> with the body of another response. The
  constructor of the Fetch Standard throws a RangeError when the status is outside 200 to
  599, and a TypeError when a body is given together with a null body status. The wording
  of the two messages is the engine's.
\<close>

definition null_body_status :: "nat \<Rightarrow> bool" where
  "null_body_status st = (st \<in> set [101, 103, 204, 205, 304])"

definition status_range_message :: string where
  \<open>status_range_message = ''init["status"] must be in the range of 200 to 599, inclusive.''\<close>

definition null_body_message :: string where
  "null_body_message = ''Response with null body status cannot have body''"

definition new_Response :: "response_body \<Rightarrow> nat \<Rightarrow> headers \<Rightarrow> js_error + response" where
  "new_Response b st h =
     (if st < 200 \<or> 599 < st then Inl (RangeError status_range_message)
      else if b \<noteq> NoBody \<and> null_body_status st then Inl (TypeError null_body_message)
      else Inr \<lparr>status = st, headers = h, body = b\<rparr>)"

text \<open>\<open>rewriter.transform(response)\<close>: the same status and headers, the body rewritten as
  it streams; an absent body stays absent.\<close>

definition transform :: "registration list \<Rightarrow> response \<Rightarrow> response" where
  "transform regs r =
     r\<lparr>body := (case body r of
                  Stream doc \<Rightarrow> Rewritten (map (transform_token regs) doc)
                | b \<Rightarrow> b)\<rparr>"

subsection \<open>The handler\<close>

text \<open>
  Of the request the handler reads the path of its URL, \<open>new URL(req.url).pathname\<close> as the
  host's parser gives it (the URL of a request is absolute, the constructor does not throw;
  a \<open>%\<close> that starts no escape stays in the path as it is), and the headers.
\<close>

record request =
  pathname :: string
  req_headers :: headers

text \<open>
  \<open>fetch\<close> is the network: a function from the URL and the request headers to the upstream
  response, or to the error it throws. The handler's result is what the caller observes:
  the response it returns or the exception it throws, and the fetches it has issued.
\<close>

type_synonym fetch_call = "string \<times> (string \<times> string) list"

type_synonym fetch = "string \<Rightarrow> (string \<times> string) list \<Rightarrow> js_error + response"

datatype outcome = Returned response | Thrown js_error

definition contentType :: "response \<Rightarrow> string" where
  "contentType targetResponse =
     (case headers_get (headers targetResponse) ''content-type'' of
        Some v \<Rightarrow> v
      | None \<Rightarrow> [])"

text \<open>Lines 107 to 130: what the handler makes of the upstream response, or the error
  that the constructor of the new response throws.\<close>

definition respond :: "edge_config \<Rightarrow> response \<Rightarrow> js_error + response" where
  "respond edgeConfig targetResponse =
     (if \<not> includes_str (contentType targetResponse) ''text/html'' then Inr targetResponse
      else
        let transformedResponse = transform (rewriter edgeConfig) targetResponse;
            h = headers_set (headers transformedResponse) ''X-Proxied-By'' ''Comet-Edge-Proxy'';
            h = headers_set h ''Access-Control-Allow-Origin'' ''*''
        in new_Response (body transformedResponse) (status transformedResponse) h)"

text \<open>The \<open>catch\<close> block: every error thrown inside \<open>try\<close> becomes this response.\<close>

definition proxy_error :: "js_error \<Rightarrow> response" where
  "proxy_error error =
     new_Response_text (''Proxy Error: '' @ message error) 500
       [(''Content-Type'', ''text/plain'')]"

definition userAgent :: "request \<Rightarrow> string" where
  "userAgent req =
     (case headers_get (req_headers req) ''user-agent'' of
        Some ua \<Rightarrow> if ua \<noteq> [] then ua else ''Mozilla/5.0''
      | None \<Rightarrow> ''Mozilla/5.0'')"

text \<open>The handler with the configuration that \<open>getEdgeConfig\<close> has returned made explicit.
  \<open>decodeURIComponent\<close> is called before the \<open>try\<close> block is entered.\<close>

definition handler_with :: "edge_config \<Rightarrow> fetch \<Rightarrow> request \<Rightarrow> outcome \<times> fetch_call list" where
  "handler_with edgeConfig fetch req =
     (let targetUrl = replace (pathname req) ''/proxy/'' []
      in case decodeURIComponent targetUrl of
           Inl e \<Rightarrow> (Thrown e, [])
         | Inr decodedUrl \<Rightarrow>
             if decodedUrl = [] then (Returned (new_Response_text ''Missing target URL'' 400 []), [])
             else
               let init = [(''User-Agent'', userAgent req)]
               in (case fetch decodedUrl init of
                     Inl error \<Rightarrow> (Returned (proxy_error error), [(decodedUrl, init)])
                   | Inr targetResponse \<Rightarrow>
                       (case respond edgeConfig targetResponse of
                          Inl error \<Rightarrow> (Returned (proxy_error error), [(decodedUrl, init)])
                        | Inr response \<Rightarrow> (Returned response, [(decodedUrl, init)]))))"

definition handler :: "fetch \<Rightarrow> request \<Rightarrow> outcome \<times> fetch_call list" where
  "handler fetch req = handler_with getEdgeConfig fetch req"

section \<open>Counting injections\<close>

text \<open>How often the markup \<open>m\<close> has been appended in a rewritten body, and how many
  start tags named \<open>tag\<close> a document has.\<close>

fun insertions :: "string \<Rightarrow> out_token list \<Rightarrow> nat" where
  "insertions m [] = 0"
| "insertions m (OutTag el # ts) = count_list (appended el) m + insertions m ts"
| "insertions m (OutChars s # ts) = insertions m ts"

fun count_tags :: "string \<Rightarrow> token list \<Rightarrow> nat" where
  "count_tags tag [] = 0"
| "count_tags tag (StartTag t as # ts) = (if t = tag then 1 else 0) + count_tags tag ts"
| "count_tags tag (Chars s # ts) = count_tags tag ts"

fun rewritten :: "response_body \<Rightarrow> out_token list" where
  "rewritten (Rewritten ts) = ts"
| "rewritten (Stream doc) = []"
| "rewritten (Text s) = []"
| "rewritten NoBody = []"

section \<open>Sample requests and upstream responses\<close>

definition two_heads :: response where
  "two_heads =
     \<lparr>status = 200, headers = [(''content-type'', ''text/html'')],
      body = Stream [StartTag ''head'' [], Chars ''</head>'', StartTag ''head'' [],
                     Chars ''</head>'']\<rparr>"

definition two_heads_rewritten :: "out_token list" where
  "two_heads_rewritten =
     [OutTag \<lparr>tagName = ''head'', attributes = [],
              appended = [bootstrap_script, eruda_script]\<rparr>,
      OutChars ''</head>'',
      OutTag \<lparr>tagName = ''head'', attributes = [],
              appended = [bootstrap_script, eruda_script]\<rparr>,
      OutChars ''</head>'']"

definition json_response :: response where
  "json_response =
     \<lparr>status = 200, headers = [(''content-type'', ''application/json'')],
      body = Stream [Chars ''{}'']\<rparr>"

definition page_doc :: "token list" where
  "page_doc =
     [StartTag ''html'' [], StartTag ''head'' [], Chars ''</head>'', StartTag ''body'' [],
      StartTag ''a'' [(''class'', ''k''), (''href'', ''https://example.com/x'')],
      Chars ''x</a></body></html>'']"

definition page_response :: response where
  "page_response =
     \<lparr>status = 200, headers = [(''content-type'', ''text/html; charset=utf-8'')],
      body = Stream page_doc\<rparr>"

definition no_head_page :: response where
  "no_head_page =
     \<lparr>status = 200, headers = [(''content-type'', ''text/html'')],
      body = Stream [StartTag ''p'' [], Chars ''hello</p>'']\<rparr>"


definition page_999 :: response where
  "page_999 =
     \<lparr>status = 999, headers = [(''content-type'', ''text/html'')],
      body = Stream [StartTag ''head'' [], Chars ''</head>'']\<rparr>"

definition debug_off :: edge_config where
  "debug_off =
     \<lparr>DEV_FEATURES = Some \<lparr>eruda = Some False, customTheme = Some False\<rparr>,
      ENCODING_KEY = ''comet-proxy-v1'',
      BLOCKLIST = []\<rparr>"


definition fetch_two_heads :: fetch where
  "fetch_two_heads url init = Inr two_heads"

definition fetch_no_head :: fetch where
  "fetch_no_head url init = Inr no_head_page"


definition fetch_999 :: fetch where
  "fetch_999 url init = Inr page_999"

definition fetch_json :: fetch where
  "fetch_json url init = Inr json_response"

definition fetch_page :: fetch where
  "fetch_page url init = Inr page_response"

definition fetch_fails :: fetch where
  "fetch_fails url init = Inl (TypeError ''fetch failed'')"

definition sample_request :: request where
  "sample_request =
     \<lparr>pathname = ''/proxy/https%3A%2F%2Fexample.com%2F'', req_headers = []\<rparr>"

definition empty_target_request :: request where
  "empty_target_request = \<lparr>pathname = ''/proxy/'', req_headers = []\<rparr>"

definition malformed_request :: request where
  "malformed_request = \<lparr>pathname = ''/proxy/%'', req_headers = []\<rparr>"

definition sample_anchor :: element where
  "sample_anchor =
     \<lparr>tagName = ''a'',
      attributes = [(''class'', ''href''), (''href'', ''https://example.com/x''), (''id'', ''n'')],
      appended = []\<rparr>"

section \<open>The codec round trip\<close>

lemma hexval_hexdigit: "n < 16 \<Longrightarrow> hexval (hexdigit n) = Some n"
proof -
  assume "n < 16"
  then consider "n = 0" | "n = 1" | "n = 2" | "n = 3" | "n = 4" | "n = 5" | "n = 6" | "n = 7"
    | "n = 8" | "n = 9" | "n = 10" | "n = 11" | "n = 12" | "n = 13" | "n = 14" | "n = 15"
    by atomize_elim presburger
  then show ?thesis
    by cases (simp_all add: hexval_def hexdigit_def between_def)
qed

lemma hex_byte_hexdigit:
  "hex_byte (hexdigit (of_char c div 16)) (hexdigit (of_char c mod 16)) = Some c"
proof -
  have "(of_char c :: nat) < 256" by simp
  then have "(of_char c :: nat) div 16 < 16" by arith
  then show ?thesis
    by (simp add: hex_byte_def hexval_hexdigit)
qed

lemma high_not_unreserved: "leading_ones c \<noteq> 0 \<Longrightarrow> \<not> unreserved c"
  by (auto simp: leading_ones_def unreserved_def between_def Let_def split: if_splits)

lemma percent_not_unreserved: "\<not> unreserved (CHR ''%'')"
  by (simp add: unreserved_def between_def)

lemma Decode_encode_char_ascii:
  "leading_ones c = 0 \<Longrightarrow> Decode (encode_char c @ r) = map_option ((#) c) (Decode r)"
  using percent_not_unreserved
  by (auto simp: encode_char_def hex_byte_hexdigit)

lemma read_octets_encode:
  "\<forall>c\<in>set bs. \<not> unreserved c \<Longrightarrow>
   read_octets (length bs) (encodeURIComponent bs @ r) = Some (bs, r)"
  by (induction bs) (simp_all add: encodeURIComponent_def encode_char_def hex_byte_hexdigit)

lemma cont_leading_ones: "cont c \<Longrightarrow> leading_ones c \<noteq> 0"
  by (simp add: cont_def leading_ones_def)

lemma valid_seq_cont: "valid_seq (c # bs) \<Longrightarrow> \<forall>x\<in>set bs. cont x"
  by (erule valid_seq.elims) (auto simp: between_def cont_def)

lemma valid_seq_length: "valid_seq bs \<Longrightarrow> 2 \<le> length bs \<and> length bs \<le> 4"
  by (erule valid_seq.elims) auto

text \<open>Decoding undoes encoding on every well-formed string: an escaped multi-byte
  sequence is read back octet by octet and passes the validity check it passed before.\<close>

lemma Decode_encodeURIComponent: "valid_utf8 s \<Longrightarrow> Decode (encodeURIComponent s) = Some s"
proof (induction s rule: valid_utf8.induct)
  case 1
  then show ?case by (simp add: encodeURIComponent_def)
next
  case (2 c cs)
  show ?case
  proof (cases "leading_ones c = 0")
    case True
    with 2 have "Decode (encodeURIComponent cs) = Some cs" by simp
    moreover have "encodeURIComponent (c # cs) = encode_char c @ encodeURIComponent cs"
      by (simp add: encodeURIComponent_def)
    ultimately show ?thesis
      using Decode_encode_char_ascii [OF True, of "encodeURIComponent cs"] by simp
  next
    case False
    define n where "n = leading_ones c - 1"
    define bs where "bs = take n cs"
    define rest where "rest = drop n cs"
    from 2(3) False have len: "n \<le> length cs" and vs: "valid_seq (c # bs)"
      and vr: "valid_utf8 rest"
      by (simp_all add: n_def bs_def rest_def)
    from 2(2) False vr have IH: "Decode (encodeURIComponent rest) = Some rest"
      by (simp add: n_def rest_def)
    have lbs: "length bs = n" using len by (simp add: bs_def)
    from valid_seq_length [OF vs] lbs False
    have n: "leading_ones c \<noteq> 1" "\<not> leading_ones c > 4"
      by (simp_all add: n_def)
    have nu: "\<forall>x\<in>set bs. \<not> unreserved x"
      using valid_seq_cont [OF vs] cont_leading_ones high_not_unreserved by blast
    have ro: "read_octets n (encodeURIComponent bs @ encodeURIComponent rest)
                = Some (bs, encodeURIComponent rest)"
      using read_octets_encode [OF nu] lbs by simp
    have cs: "cs = bs @ rest" by (simp add: bs_def rest_def)
    have "encodeURIComponent (c # cs) =
            CHR ''%'' # hexdigit (of_char c div 16) # hexdigit (of_char c mod 16)
              # (encodeURIComponent bs @ encodeURIComponent rest)"
      using high_not_unreserved [OF False]
      by (simp add: encodeURIComponent_def encode_char_def cs)
    moreover from ro have "read_octets (leading_ones c - Suc 0)
        (encodeURIComponent bs @ encodeURIComponent rest) = Some (bs, encodeURIComponent rest)"
      by (simp add: n_def)
    ultimately show ?thesis
      using False n vs IH by (simp add: hex_byte_hexdigit cs)
  qed
qed

lemma decodeURIComponent_encodeURIComponent:
  "valid_utf8 s \<Longrightarrow> decodeURIComponent (encodeURIComponent s) = Inr s"
  by (simp add: decodeURIComponent_def Decode_encodeURIComponent)

lemma Decode_empty: "Decode s = Some [] \<longleftrightarrow> s = []"
  by (cases s) (auto split: list.splits option.splits if_splits)

section \<open>URLs that are not rewritten\<close>

lemma URLUtils_rewrite_excluded:
  "url = [] \<or> startsWith url ''data:'' \<or> startsWith url ''javascript:''
     \<or> startsWith url ''blob:'' \<Longrightarrow> URLUtils_rewrite href url = url"
  by (simp add: URLUtils_rewrite_def)

lemma rewriteUrl_excluded:
  "url = [] \<or> startsWith url ''data:'' \<or> startsWith url ''javascript:'' \<Longrightarrow>
   rewriteUrl url = url"
  by (simp add: rewriteUrl_def)

text \<open>
  C3. The rewriting function is to be the identity on the empty string and on \<open>data:\<close>,
  \<open>javascript:\<close> and \<open>blob:\<close> URLs. The client's \<open>URLUtils.rewrite\<close> is; the edge
  function's \<open>rewriteUrl\<close> has no test for \<open>blob:\<close> and routes \<open>blob:abc\<close> through
  \<open>/proxy/\<close>.
\<close>

theorem rewriteUrl_blob_not_identity:
  "rewriteUrl ''blob:abc'' = ''/proxy/blob%3Aabc''
   \<and> URLUtils_rewrite href ''blob:abc'' = ''blob:abc''"
  by (simp add: rewriteUrl_def URLUtils_rewrite_def startsWith_def encodeURIComponent_def
      encode_char_def unreserved_def between_def hexdigit_def)

section \<open>The handler's outcomes\<close>

lemma handler_returns_when_decodable:
  "decodeURIComponent (replace (pathname req) ''/proxy/'' []) = Inr u \<Longrightarrow>
   \<exists>r. fst (handler fetch req) = Returned r"
  by (simp add: handler_def handler_with_def Let_def split: sum.splits)







lemma respond_html:
  "includes_str (contentType r) ''text/html'' \<Longrightarrow> 200 \<le> status r \<Longrightarrow> status r \<le> 599 \<Longrightarrow>
   \<not> null_body_status (status r) \<Longrightarrow>
   respond cfg r =
     Inr \<lparr>status = status r,
          headers = headers_set (headers_set (headers r) ''X-Proxied-By'' ''Comet-Edge-Proxy'')
                      ''Access-Control-Allow-Origin'' ''*'',
          body = body (transform (rewriter cfg) r)\<rparr>"
  by (simp add: respond_def new_Response_def transform_def Let_def)


lemma handler_with_respond:
  "decodeURIComponent (replace (pathname req) ''/proxy/'' []) = Inr u \<Longrightarrow> u \<noteq> [] \<Longrightarrow>
   fetch u [(''User-Agent'', userAgent req)] = Inr r \<Longrightarrow>
   handler_with cfg fetch req =
     (case respond cfg r of
        Inl error \<Rightarrow> (Returned (proxy_error error), [(u, [(''User-Agent'', userAgent req)])])
      | Inr response \<Rightarrow> (Returned response, [(u, [(''User-Agent'', userAgent req)])]))"
  by (simp add: handler_with_def Let_def)


lemma handler_with_html:
  "decodeURIComponent (replace (pathname req) ''/proxy/'' []) = Inr u \<Longrightarrow> u \<noteq> [] \<Longrightarrow>
   fetch u [(''User-Agent'', userAgent req)] = Inr r \<Longrightarrow>
   includes_str (contentType r) ''text/html'' \<Longrightarrow> 200 \<le> status r \<Longrightarrow> status r \<le> 599 \<Longrightarrow>
   \<not> null_body_status (status r) \<Longrightarrow>
   handler_with cfg fetch req =
     (Returned \<lparr>status = status r,
          headers = headers_set (headers_set (headers r) ''X-Proxied-By'' ''Comet-Edge-Proxy'')
                      ''Access-Control-Allow-Origin'' ''*'',
          body = body (transform (rewriter cfg) r)\<rparr>,
      [(u, [(''User-Agent'', userAgent req)])])"
  by (simp add: handler_with_respond respond_html)


lemma body_transform_Stream:
  "body r = Stream doc \<Longrightarrow>
   body (transform regs r) = Rewritten (map (transform_token regs) doc)"
  by (simp add: transform_def)

lemma handler_fetch_failure_sample:
  "handler fetch_fails sample_request =
     (Returned \<lparr>status = 500, headers = [(''content-type'', ''text/plain'')],
                body = Text ''Proxy Error: fetch failed''\<rparr>,
      [(''https://example.com/'', [(''User-Agent'', ''Mozilla/5.0'')])])"
  by code_simp

lemma decoded_target_empty_iff: "decodeURIComponent s = Inr [] \<longleftrightarrow> s = []"
  using Decode_empty [of s] by (auto simp add: decodeURIComponent_def split: option.splits)

text \<open>
  C4. The handler is to answer every request, a malformed percent escape in the path
  included. \<open>decodeURIComponent\<close> runs before the \<open>try\<close> block: for the path \<open>/proxy/%\<close>
  the handler throws the URIError and returns no response, whatever the network does.
\<close>

theorem handler_malformed_escape_throws:
  "handler fetch malformed_request = (Thrown (URIError ''URI malformed''), [])"
  by (simp add: handler_def handler_with_def malformed_request_def decodeURIComponent_def)

text \<open>
  C9. When the decoded target is empty the handler answers with status 400 and has issued
  no fetch.
\<close>

theorem handler_empty_target_400_no_fetch:
  "decodeURIComponent (replace (pathname req) ''/proxy/'' []) = Inr [] \<Longrightarrow>
   handler fetch req =
     (Returned \<lparr>status = 400, headers = [(''content-type'', ''text/plain;charset=UTF-8'')],
                body = Text ''Missing target URL''\<rparr>, [])"
  by (simp add: handler_def handler_with_def new_Response_text_def new_Headers_def
      headers_get_def headers_set_def toLowerCase_def toLowerCase_char_def)

theorem handler_empty_target_400_no_fetch_witness:
  "decodeURIComponent (replace (pathname empty_target_request) ''/proxy/'' []) = Inr []
   \<and> handler fetch_page empty_target_request =
     (Returned \<lparr>status = 400, headers = [(''content-type'', ''text/plain;charset=UTF-8'')],
                body = Text ''Missing target URL''\<rparr>, [])"
proof -
  have h: "decodeURIComponent (replace (pathname empty_target_request) ''/proxy/'' []) = Inr []"
    by (simp add: empty_target_request_def decodeURIComponent_def)
  show ?thesis
    using h handler_empty_target_400_no_fetch [OF h, of fetch_page] by simp
qed

section \<open>Passthrough and response headers\<close>



lemma sample_request_decodes:
  "decodeURIComponent (replace (pathname sample_request) ''/proxy/'' []) =
     Inr ''https://example.com/''"
  by code_simp

lemma userAgent_sample_request: "userAgent sample_request = ''Mozilla/5.0''"
  by code_simp







lemma sample_fetches:
  "fetch_page ''https://example.com/'' [(''User-Agent'', userAgent sample_request)] =
     Inr page_response"
  "fetch_json ''https://example.com/'' [(''User-Agent'', userAgent sample_request)] =
     Inr json_response"
  "fetch_fails ''https://example.com/'' [(''User-Agent'', userAgent sample_request)] =
     Inl (TypeError ''fetch failed'')"
  "fetch_999 ''https://example.com/'' [(''User-Agent'', userAgent sample_request)] =
     Inr page_999"
  by (simp_all add: fetch_page_def fetch_json_def fetch_fails_def fetch_999_def)

lemma page_response_facts:
  "includes_str (contentType page_response) ''text/html''"
  "200 \<le> status page_response"
  "status page_response \<le> 599"
  "\<not> null_body_status (status page_response)"
  by code_simp+


lemma page_response_body: "body page_response = Stream page_doc"
  by (simp add: page_response_def)





section \<open>The attribute rewriter\<close>

lemma set_attr_keys: "map_of as a = Some v \<Longrightarrow> map fst (set_attr as a w) = map fst as"
  by (induction as a w rule: set_attr.induct) (auto split: if_splits)

lemma set_attr_nth:
  "map_of as a = Some v \<Longrightarrow> i < length as \<Longrightarrow>
   set_attr as a w ! i =
     (if fst (as ! i) = a \<and> a \<notin> set (take i (map fst as)) then (a, w) else as ! i)"
proof (induction as a w arbitrary: i rule: set_attr.induct)
  case (1 name v)
  then show ?case by simp
next
  case (2 k w' as name v')
  then show ?case
    by (cases i) (auto split: if_splits)
qed

lemma map_of_first:
  "i < length as \<Longrightarrow> fst (as ! i) = a \<Longrightarrow> a \<notin> set (take i (map fst as)) \<Longrightarrow>
   map_of as a = Some (snd (as ! i))"
proof (induction as arbitrary: i)
  case Nil
  then show ?case by simp
next
  case (Cons p as)
  then show ?case
    by (cases i) (auto split: if_splits)
qed

lemma rewriteUrl_Nil: "rewriteUrl [] = []"
  by (simp add: rewriteUrl_def)

lemma rewrite_attr_keys:
  "map fst (attributes (rewrite_attr el a)) = map fst (attributes el)"
  by (simp add: rewrite_attr_def getAttribute_def setAttribute_def set_attr_keys
      split: option.splits)

lemma rewrite_attr_nth:
  assumes "i < length (attributes el)"
  shows "attributes (rewrite_attr el a) ! i =
     (if fst (attributes el ! i) = a \<and> a \<notin> set (take i (map fst (attributes el)))
      then (a, rewriteUrl (snd (attributes el ! i))) else attributes el ! i)"
proof (cases "fst (attributes el ! i) = a \<and> a \<notin> set (take i (map fst (attributes el)))")
  case True
  then have m: "map_of (attributes el) a = Some (snd (attributes el ! i))"
    using map_of_first [OF assms] by simp
  show ?thesis
  proof (cases "snd (attributes el ! i) = []")
    case e: True
    have "attributes el ! i = (a, [])"
      using True e by (metis prod.collapse)
    with True m e show ?thesis
      by (simp add: rewrite_attr_def getAttribute_def rewriteUrl_Nil)
  next
    case False
    with True m assms show ?thesis
      by (simp add: rewrite_attr_def getAttribute_def setAttribute_def set_attr_nth)
  qed
next
  case False
  show ?thesis
  proof (cases "map_of (attributes el) a")
    case None
    with False show ?thesis
      by (auto simp add: rewrite_attr_def getAttribute_def)
  next
    case (Some v)
    with False assms show ?thesis
      by (auto simp add: rewrite_attr_def getAttribute_def setAttribute_def set_attr_nth)
  qed
qed

lemma ElementHandler_element_unfold:
  "ElementHandler_element el =
     rewrite_attr (rewrite_attr (rewrite_attr (rewrite_attr el ''href'') ''src'') ''action'') ''data''"
  by (simp add: ElementHandler_element_def attrs_def)

lemma rewrite_attr_frame:
  "tagName (rewrite_attr el a) = tagName el" "appended (rewrite_attr el a) = appended el"
  by (simp_all add: rewrite_attr_def setAttribute_def split: option.splits)

lemma ElementHandler_element_frame:
  "tagName (ElementHandler_element el) = tagName el"
  "appended (ElementHandler_element el) = appended el"
  by (simp_all add: ElementHandler_element_unfold rewrite_attr_frame)

lemma ElementHandler_element_keys:
  "map fst (attributes (ElementHandler_element el)) = map fst (attributes el)"
  by (simp add: ElementHandler_element_unfold rewrite_attr_keys)

lemma rewrite_attr_length:
  "length (attributes (rewrite_attr el a)) = length (attributes el)"
  using rewrite_attr_keys [of el a] by (metis length_map)

lemma ElementHandler_element_nth:
  assumes "i < length (attributes el)"
  shows "attributes (ElementHandler_element el) ! i =
     (if fst (attributes el ! i) \<in> set attrs
         \<and> fst (attributes el ! i) \<notin> set (take i (map fst (attributes el)))
      then (fst (attributes el ! i), rewriteUrl (snd (attributes el ! i)))
      else attributes el ! i)"
  using assms
  by (auto simp add: ElementHandler_element_unfold rewrite_attr_nth rewrite_attr_keys
      rewrite_attr_length attrs_def)

lemma transform_token_attributes:
  "transform_token (rewriter cfg) (StartTag tag as) = OutTag e \<Longrightarrow>
   attributes e =
     (if tag \<in> set [''a'', ''link'', ''script'', ''img'', ''iframe'', ''form'']
      then attributes (ElementHandler_element \<lparr>tagName = tag, attributes = as, appended = []\<rparr>)
      else as)"
  by (auto simp: rewriter_def run_handler_def HeadHandler_element_def BodyHandler_element_def
      append_html_def Let_def)


text \<open>
  C8. The element handler keeps the tag name, the appended content, and the names and the
  order of all attributes. The value of an attribute changes only if its name is one of
  \<open>href\<close>, \<open>src\<close>, \<open>action\<close>, \<open>data\<close> and it is the first attribute of that name (the
  one \<open>getAttribute\<close> reads); it then becomes \<open>rewriteUrl\<close> of the old value. The rewriter
  applies the handler to the tags \<open>a\<close>, \<open>link\<close>, \<open>script\<close>, \<open>img\<close>, \<open>iframe\<close>, \<open>form\<close> and
  leaves the attributes of every other tag as they are.
\<close>

theorem attribute_rewriter_frame:
  "tagName (ElementHandler_element el) = tagName el
   \<and> appended (ElementHandler_element el) = appended el
   \<and> map fst (attributes (ElementHandler_element el)) = map fst (attributes el)
   \<and> (\<forall>i < length (attributes el).
         attributes (ElementHandler_element el) ! i =
           (if fst (attributes el ! i) \<in> set attrs
               \<and> fst (attributes el ! i) \<notin> set (take i (map fst (attributes el)))
            then (fst (attributes el ! i), rewriteUrl (snd (attributes el ! i)))
            else attributes el ! i))
   \<and> (transform_token (rewriter cfg) (StartTag tag as) = OutTag e \<longrightarrow>
         attributes e =
           (if tag \<in> set [''a'', ''link'', ''script'', ''img'', ''iframe'', ''form'']
            then attributes (ElementHandler_element \<lparr>tagName = tag, attributes = as, appended = []\<rparr>)
            else as))"
  using ElementHandler_element_frame [of el] ElementHandler_element_keys [of el]
    ElementHandler_element_nth [of _ el] transform_token_attributes [of cfg tag as e]
  by blast

theorem attribute_rewriter_frame_witness:
  "attributes (ElementHandler_element sample_anchor) ! 0 = (''class'', ''href'')
   \<and> attributes (ElementHandler_element sample_anchor) ! 1 =
       (''href'', ''/proxy/https%3A%2F%2Fexample.com%2Fx'')
   \<and> attributes (ElementHandler_element sample_anchor) ! 2 = (''id'', ''n'')
   \<and> transform_token (rewriter getEdgeConfig) (StartTag ''p'' [(''href'', ''x'')]) =
       OutTag \<lparr>tagName = ''p'', attributes = [(''href'', ''x'')], appended = []\<rparr>"
proof -
  have t: "transform_token (rewriter getEdgeConfig) (StartTag ''p'' [(''href'', ''x'')]) =
       OutTag \<lparr>tagName = ''p'', attributes = [(''href'', ''x'')], appended = []\<rparr>"
    by code_simp
  have l: "length (attributes sample_anchor) = 3" by (simp add: sample_anchor_def)
  have r: "rewriteUrl ''https://example.com/x'' = ''/proxy/https%3A%2F%2Fexample.com%2Fx''"
    by code_simp
  from attribute_rewriter_frame [of sample_anchor getEdgeConfig "''p''" "[(''href'', ''x'')]"
      "\<lparr>tagName = ''p'', attributes = [(''href'', ''x'')], appended = []\<rparr>"]
  have "\<forall>i < length (attributes sample_anchor).
         attributes (ElementHandler_element sample_anchor) ! i =
           (if fst (attributes sample_anchor ! i) \<in> set attrs
               \<and> fst (attributes sample_anchor ! i) \<notin> set (take i (map fst (attributes sample_anchor)))
            then (fst (attributes sample_anchor ! i), rewriteUrl (snd (attributes sample_anchor ! i)))
            else attributes sample_anchor ! i)"
    by blast
  then have "attributes (ElementHandler_element sample_anchor) ! 0 = (''class'', ''href'')"
    "attributes (ElementHandler_element sample_anchor) ! 1 =
       (''href'', ''/proxy/https%3A%2F%2Fexample.com%2Fx'')"
    "attributes (ElementHandler_element sample_anchor) ! 2 = (''id'', ''n'')"
    using l r by (simp_all add: sample_anchor_def attrs_def)
  with t show ?thesis by simp
qed

section \<open>Injection\<close>

lemma markup_distinct:
  "bootstrap_script \<noteq> eruda_script" "bootstrap_script \<noteq> debug_trigger"
  "eruda_script \<noteq> debug_trigger"
  by (simp_all add: bootstrap_script_def eruda_script_def debug_trigger_def)

lemma appended_transform_token:
  "transform_token (rewriter cfg) (StartTag t as) =
     OutTag \<lparr>tagName = t,
       attributes = (if t \<in> set [''a'', ''link'', ''script'', ''img'', ''iframe'', ''form'']
            then attributes (ElementHandler_element \<lparr>tagName = t, attributes = as, appended = []\<rparr>)
            else as),
       appended = (if t = ''head''
      then bootstrap_script # (if eruda (devFeatures cfg) \<noteq> Some False then [eruda_script] else [])
      else if t = ''body''
      then (if eruda (devFeatures cfg) \<noteq> Some False then [debug_trigger] else [])
      else [])\<rparr>"
proof -
  let ?el = "\<lparr>tagName = t, attributes = as, appended = []\<rparr>"
  have eh: "ElementHandler_element ?el =
      \<lparr>tagName = t, attributes = attributes (ElementHandler_element ?el), appended = []\<rparr>"
    using ElementHandler_element_frame [of ?el] by (cases "ElementHandler_element ?el") simp
  consider "t = ''head''" | "t = ''body''"
    | "t \<in> set [''a'', ''link'', ''script'', ''img'', ''iframe'', ''form'']"
    | "t \<noteq> ''head''" "t \<noteq> ''body''"
      "t \<notin> set [''a'', ''link'', ''script'', ''img'', ''iframe'', ''form'']"
    by blast
  then show ?thesis
  proof cases
    case 1
    then show ?thesis
      by (simp add: rewriter_def run_handler_def HeadHandler_element_def append_html_def Let_def)
  next
    case 2
    then show ?thesis
      by (simp add: rewriter_def run_handler_def BodyHandler_element_def append_html_def)
  next
    case 3
    then have "t \<noteq> ''head''" "t \<noteq> ''body''" by auto
    with 3 eh show ?thesis
      by (simp add: rewriter_def run_handler_def)
  next
    case 4
    then show ?thesis
      by (simp add: rewriter_def run_handler_def)
  qed
qed


lemma insertions_Cons_transform:
  "insertions m (transform_token (rewriter cfg) (StartTag t as) # out) =
     count_list (if t = ''head''
      then bootstrap_script # (if eruda (devFeatures cfg) \<noteq> Some False then [eruda_script] else [])
      else if t = ''body''
      then (if eruda (devFeatures cfg) \<noteq> Some False then [debug_trigger] else [])
      else []) m + insertions m out"
  by (simp only: appended_transform_token insertions.simps element.simps)

lemma insertions_bootstrap:
  "insertions bootstrap_script (map (transform_token (rewriter cfg)) doc) = count_tags ''head'' doc"
proof (induction doc)
  case Nil
  then show ?case by simp
next
  case (Cons tok doc)
  show ?case
  proof (cases tok)
    case (StartTag t as)
    with Cons markup_distinct show ?thesis
      by (simp add: insertions_Cons_transform del: transform_token.simps)
  next
    case (Chars s)
    with Cons show ?thesis by simp
  qed
qed

lemma insertions_eruda:
  "insertions eruda_script (map (transform_token (rewriter cfg)) doc) =
     (if eruda (devFeatures cfg) \<noteq> Some False then count_tags ''head'' doc else 0)"
proof (induction doc)
  case Nil
  then show ?case by simp
next
  case (Cons tok doc)
  show ?case
  proof (cases tok)
    case (StartTag t as)
    with Cons markup_distinct show ?thesis
      by (simp add: insertions_Cons_transform del: transform_token.simps)
  next
    case (Chars s)
    with Cons show ?thesis by simp
  qed
qed

lemma insertions_trigger:
  "insertions debug_trigger (map (transform_token (rewriter cfg)) doc) =
     (if eruda (devFeatures cfg) \<noteq> Some False then count_tags ''body'' doc else 0)"
proof (induction doc)
  case Nil
  then show ?case by simp
next
  case (Cons tok doc)
  show ?case
  proof (cases tok)
    case (StartTag t as)
    with Cons markup_distinct show ?thesis
      by (simp add: insertions_Cons_transform del: transform_token.simps)
  next
    case (Chars s)
    with Cons show ?thesis by simp
  qed
qed

lemma flag_cases:
  "(if eruda (devFeatures cfg) \<noteq> Some False then x else y) =
     (case DEV_FEATURES cfg of
        None \<Rightarrow> x
      | Some d \<Rightarrow> (case eruda d of None \<Rightarrow> x | Some True \<Rightarrow> x | Some False \<Rightarrow> y))"
  by (simp add: devFeatures_def split: option.splits bool.splits)

lemma handlers_append_by_flag:
  "appended (HeadHandler_element cfg el) =
     appended el @ bootstrap_script #
       (case DEV_FEATURES cfg of
          None \<Rightarrow> [eruda_script]
        | Some d \<Rightarrow> (case eruda d of None \<Rightarrow> [eruda_script] | Some True \<Rightarrow> [eruda_script]
                     | Some False \<Rightarrow> []))"
  "appended (BodyHandler_element cfg el) =
     appended el @
       (case DEV_FEATURES cfg of
          None \<Rightarrow> [debug_trigger]
        | Some d \<Rightarrow> (case eruda d of None \<Rightarrow> [debug_trigger] | Some True \<Rightarrow> [debug_trigger]
                     | Some False \<Rightarrow> []))"
  by (simp_all add: HeadHandler_element_def BodyHandler_element_def devFeatures_def
      append_html_def Let_def split: option.splits bool.splits)

lemma transform_token_head:
  "transform_token (rewriter cfg) (StartTag ''head'' as) =
     OutTag \<lparr>tagName = ''head'', attributes = as,
             appended = bootstrap_script #
               (case DEV_FEATURES cfg of
                  None \<Rightarrow> [eruda_script]
                | Some d \<Rightarrow> (case eruda d of None \<Rightarrow> [eruda_script]
                             | Some True \<Rightarrow> [eruda_script] | Some False \<Rightarrow> []))\<rparr>"
  by (simp add: appended_transform_token flag_cases del: transform_token.simps)

lemma transform_token_body:
  "transform_token (rewriter cfg) (StartTag ''body'' as) =
     OutTag \<lparr>tagName = ''body'', attributes = as,
             appended =
               (case DEV_FEATURES cfg of
                  None \<Rightarrow> [debug_trigger]
                | Some d \<Rightarrow> (case eruda d of None \<Rightarrow> [debug_trigger]
                             | Some True \<Rightarrow> [debug_trigger] | Some False \<Rightarrow> []))\<rparr>"
  by (simp add: appended_transform_token flag_cases del: transform_token.simps)

lemma transform_token_other:
  "t \<noteq> ''head'' \<Longrightarrow> t \<noteq> ''body'' \<Longrightarrow>
   insertions m [transform_token (rewriter cfg) (StartTag t as)] = 0"
  by (simp add: insertions_Cons_transform del: transform_token.simps)

text \<open>
  C1, as stated: each injection occurs at most once in a document, also when the head or
  body event fires more than once. It fails: the handlers keep no record of having run, and
  a document with two \<open>head\<close> start tags gets the bootstrap script twice.
\<close>

theorem two_heads_injected_twice:
  "handler fetch_two_heads sample_request =
     (Returned \<lparr>status = 200,
                headers = [(''content-type'', ''text/html''),
                           (''x-proxied-by'', ''Comet-Edge-Proxy''),
                           (''access-control-allow-origin'', ''*'')],
                body = Rewritten two_heads_rewritten\<rparr>,
      [(''https://example.com/'', [(''User-Agent'', ''Mozilla/5.0'')])])
   \<and> insertions bootstrap_script two_heads_rewritten = 2
   \<and> insertions eruda_script two_heads_rewritten = 2"
  by code_simp

text \<open>
  C1, amended: each injection occurs once for every matching element. When the handler
  rewrites an HTML response (the upstream content type contains \<open>text/html\<close> and the
  upstream status is one the response constructor accepts), the body it returns has the
  bootstrap script appended as often as the document has \<open>head\<close> start tags, the
  debugging-tool script as often again unless the flag is explicitly false (then never),
  and the trigger control as often as the document has \<open>body\<close> start tags unless the flag
  is explicitly false (then never). So none is inserted when the event never fires, and
  each at most once in a document with at most one \<open>head\<close> and one \<open>body\<close>.
\<close>

theorem injections_once_per_matched_element:
  assumes "decodeURIComponent (replace (pathname req) ''/proxy/'' []) = Inr u" and "u \<noteq> []"
    and "fetch u [(''User-Agent'', userAgent req)] = Inr r"
    and "includes_str (contentType r) ''text/html''" and "body r = Stream doc"
    and "200 \<le> status r" and "status r \<le> 599" and "\<not> null_body_status (status r)"
  shows "\<exists>resp. handler_with cfg fetch req =
                  (Returned resp, [(u, [(''User-Agent'', userAgent req)])])
    \<and> insertions bootstrap_script (rewritten (body resp)) = count_tags ''head'' doc
    \<and> insertions eruda_script (rewritten (body resp)) =
        (if eruda (devFeatures cfg) \<noteq> Some False then count_tags ''head'' doc else 0)
    \<and> insertions debug_trigger (rewritten (body resp)) =
        (if eruda (devFeatures cfg) \<noteq> Some False then count_tags ''body'' doc else 0)"
  using handler_with_html [where fetch = fetch and cfg = cfg, OF assms(1-4) assms(6-8)]
  by (simp add: body_transform_Stream [OF assms(5)] insertions_bootstrap insertions_eruda
      insertions_trigger)

theorem injections_once_per_matched_element_witness:
  "\<exists>resp. handler fetch_page sample_request =
            (Returned resp, [(''https://example.com/'', [(''User-Agent'', ''Mozilla/5.0'')])])
     \<and> insertions bootstrap_script (rewritten (body resp)) = 1
     \<and> insertions eruda_script (rewritten (body resp)) = 1
     \<and> insertions debug_trigger (rewritten (body resp)) = 1"
proof -
  have e: "eruda (devFeatures getEdgeConfig) = Some True"
    by (simp add: getEdgeConfig_def devFeatures_def)
  have ne: "''https://example.com/'' \<noteq> []" by simp
  have c: "count_tags ''head'' page_doc = 1" "count_tags ''body'' page_doc = 1"
    by (simp_all add: page_doc_def)
  show ?thesis
    using injections_once_per_matched_element
      [where fetch = fetch_page and cfg = getEdgeConfig,
        OF sample_request_decodes ne sample_fetches(1) page_response_facts(1)
          page_response_body page_response_facts(2-4)]
      e c
    by (simp add: handler_def userAgent_sample_request)
qed

text \<open>
  C6, as stated: the bootstrap script reference is appended to the head for every HTML
  document. It fails in two ways. The rewriter injects at \<open>head\<close> start tags only: an HTML
  document that has none comes back without the bootstrap script. And an HTML response
  with the upstream status 999 is not rewritten at all: the response constructor rejects
  the status and the handler answers 500 in plain text.
\<close>

theorem html_documents_without_bootstrap:
  "includes_str (contentType no_head_page) ''text/html''
   \<and> handler fetch_no_head sample_request =
       (Returned \<lparr>status = 200,
                  headers = [(''content-type'', ''text/html''),
                             (''x-proxied-by'', ''Comet-Edge-Proxy''),
                             (''access-control-allow-origin'', ''*'')],
                  body = Rewritten [OutTag \<lparr>tagName = ''p'', attributes = [], appended = []\<rparr>,
                                    OutChars ''hello</p>'']\<rparr>,
        [(''https://example.com/'', [(''User-Agent'', ''Mozilla/5.0'')])])
   \<and> includes_str (contentType page_999) ''text/html''
   \<and> body page_999 = Stream [StartTag ''head'' [], Chars ''</head>'']
   \<and> handler fetch_999 sample_request =
       (Returned \<lparr>status = 500, headers = [(''content-type'', ''text/plain'')],
                  body = Text (''Proxy Error: '' @ status_range_message)\<rparr>,
        [(''https://example.com/'', [(''User-Agent'', ''Mozilla/5.0'')])])"
  by code_simp

text \<open>
  C6, amended. When the handler rewrites an HTML response (the upstream content type
  contains \<open>text/html\<close> and the upstream status is one the response constructor accepts),
  then in the body it returns, token for token: every \<open>head\<close> start tag of the document
  has the bootstrap script reference appended, whatever the configuration, followed by the
  debugging-tool script reference in every case but one, the flag \<open>eruda\<close> present and
  false; every \<open>body\<close> start tag has the trigger control appended in every case but that
  one, and nothing then; an absent \<open>DEV_FEATURES\<close> object, an absent flag and the flag
  \<open>true\<close> all enable both. No other tag has any markup appended.
\<close>

theorem injection_per_document_default_on:
  assumes "decodeURIComponent (replace (pathname req) ''/proxy/'' []) = Inr u" and "u \<noteq> []"
    and "fetch u [(''User-Agent'', userAgent req)] = Inr r"
    and "includes_str (contentType r) ''text/html''" and "body r = Stream doc"
    and "200 \<le> status r" and "status r \<le> 599" and "\<not> null_body_status (status r)"
  shows "\<exists>resp. handler_with cfg fetch req =
                  (Returned resp, [(u, [(''User-Agent'', userAgent req)])])
    \<and> length (rewritten (body resp)) = length doc
    \<and> (\<forall>i < length doc. \<forall>as. doc ! i = StartTag ''head'' as \<longrightarrow>
          rewritten (body resp) ! i =
            OutTag \<lparr>tagName = ''head'', attributes = as,
                    appended = bootstrap_script #
                      (case DEV_FEATURES cfg of
                         None \<Rightarrow> [eruda_script]
                       | Some d \<Rightarrow> (case eruda d of None \<Rightarrow> [eruda_script]
                                    | Some True \<Rightarrow> [eruda_script] | Some False \<Rightarrow> []))\<rparr>)
    \<and> (\<forall>i < length doc. \<forall>as. doc ! i = StartTag ''body'' as \<longrightarrow>
          rewritten (body resp) ! i =
            OutTag \<lparr>tagName = ''body'', attributes = as,
                    appended =
                      (case DEV_FEATURES cfg of
                         None \<Rightarrow> [debug_trigger]
                       | Some d \<Rightarrow> (case eruda d of None \<Rightarrow> [debug_trigger]
                                    | Some True \<Rightarrow> [debug_trigger] | Some False \<Rightarrow> []))\<rparr>)
    \<and> (\<forall>i < length doc. \<forall>t as m. doc ! i = StartTag t as \<and> t \<noteq> ''head'' \<and> t \<noteq> ''body'' \<longrightarrow>
          insertions m [rewritten (body resp) ! i] = 0)
    \<and> (\<forall>i < length doc. \<forall>s. doc ! i = Chars s \<longrightarrow> rewritten (body resp) ! i = OutChars s)"
  using handler_with_html [where fetch = fetch and cfg = cfg, OF assms(1-4) assms(6-8)]
  by (auto simp add: body_transform_Stream [OF assms(5)] transform_token_head
      transform_token_body transform_token_other simp del: transform_token.simps(1))

theorem injection_per_document_default_on_witness:
  "(\<exists>resp. handler_with getEdgeConfig fetch_page sample_request =
            (Returned resp, [(''https://example.com/'', [(''User-Agent'', ''Mozilla/5.0'')])])
      \<and> rewritten (body resp) ! 1 =
          OutTag \<lparr>tagName = ''head'', attributes = [],
                  appended = [bootstrap_script, eruda_script]\<rparr>
      \<and> rewritten (body resp) ! 3 =
          OutTag \<lparr>tagName = ''body'', attributes = [], appended = [debug_trigger]\<rparr>)
   \<and> (\<exists>resp. handler_with debug_off fetch_page sample_request =
            (Returned resp, [(''https://example.com/'', [(''User-Agent'', ''Mozilla/5.0'')])])
      \<and> rewritten (body resp) ! 1 =
          OutTag \<lparr>tagName = ''head'', attributes = [], appended = [bootstrap_script]\<rparr>
      \<and> rewritten (body resp) ! 3 =
          OutTag \<lparr>tagName = ''body'', attributes = [], appended = []\<rparr>)"
proof -
  have ne: "''https://example.com/'' \<noteq> []" by simp
  have on: "DEV_FEATURES getEdgeConfig = Some \<lparr>eruda = Some True, customTheme = Some False\<rparr>"
    by (simp add: getEdgeConfig_def)
  have off: "DEV_FEATURES debug_off = Some \<lparr>eruda = Some False, customTheme = Some False\<rparr>"
    by (simp add: debug_off_def)
  have d: "length page_doc = 6" "page_doc ! 1 = StartTag ''head'' []"
    "page_doc ! 3 = StartTag ''body'' []"
    by (simp_all add: page_doc_def)
  note t = injection_per_document_default_on
      [where fetch = fetch_page,
        OF sample_request_decodes ne sample_fetches(1) page_response_facts(1)
          page_response_body page_response_facts(2-4)]
  from t [of getEdgeConfig] obtain r1 where
    r1: "handler_with getEdgeConfig fetch_page sample_request =
           (Returned r1, [(''https://example.com/'', [(''User-Agent'', userAgent sample_request)])])"
    and h1: "\<forall>i < length page_doc. \<forall>as. page_doc ! i = StartTag ''head'' as \<longrightarrow>
          rewritten (body r1) ! i =
            OutTag \<lparr>tagName = ''head'', attributes = as,
                    appended = bootstrap_script #
                      (case DEV_FEATURES getEdgeConfig of
                         None \<Rightarrow> [eruda_script]
                       | Some d \<Rightarrow> (case eruda d of None \<Rightarrow> [eruda_script]
                                    | Some True \<Rightarrow> [eruda_script] | Some False \<Rightarrow> []))\<rparr>"
    and b1: "\<forall>i < length page_doc. \<forall>as. page_doc ! i = StartTag ''body'' as \<longrightarrow>
          rewritten (body r1) ! i =
            OutTag \<lparr>tagName = ''body'', attributes = as,
                    appended =
                      (case DEV_FEATURES getEdgeConfig of
                         None \<Rightarrow> [debug_trigger]
                       | Some d \<Rightarrow> (case eruda d of None \<Rightarrow> [debug_trigger]
                                    | Some True \<Rightarrow> [debug_trigger] | Some False \<Rightarrow> []))\<rparr>"
    by blast
  from t [of debug_off] obtain r2 where
    r2: "handler_with debug_off fetch_page sample_request =
           (Returned r2, [(''https://example.com/'', [(''User-Agent'', userAgent sample_request)])])"
    and h2: "\<forall>i < length page_doc. \<forall>as. page_doc ! i = StartTag ''head'' as \<longrightarrow>
          rewritten (body r2) ! i =
            OutTag \<lparr>tagName = ''head'', attributes = as,
                    appended = bootstrap_script #
                      (case DEV_FEATURES debug_off of
                         None \<Rightarrow> [eruda_script]
                       | Some d \<Rightarrow> (case eruda d of None \<Rightarrow> [eruda_script]
                                    | Some True \<Rightarrow> [eruda_script] | Some False \<Rightarrow> []))\<rparr>"
    and b2: "\<forall>i < length page_doc. \<forall>as. page_doc ! i = StartTag ''body'' as \<longrightarrow>
          rewritten (body r2) ! i =
            OutTag \<lparr>tagName = ''body'', attributes = as,
                    appended =
                      (case DEV_FEATURES debug_off of
                         None \<Rightarrow> [debug_trigger]
                       | Some d \<Rightarrow> (case eruda d of None \<Rightarrow> [debug_trigger]
                                    | Some True \<Rightarrow> [debug_trigger] | Some False \<Rightarrow> []))\<rparr>"
    by blast
  have 1: "rewritten (body r1) ! 1 =
          OutTag \<lparr>tagName = ''head'', attributes = [],
                  appended = [bootstrap_script, eruda_script]\<rparr>"
    using h1 [rule_format, of 1 "[]"] d by (simp add: on)
  have 2: "rewritten (body r1) ! 3 =
          OutTag \<lparr>tagName = ''body'', attributes = [], appended = [debug_trigger]\<rparr>"
    using b1 [rule_format, of 3 "[]"] d by (simp add: on)
  have 3: "rewritten (body r2) ! 1 =
          OutTag \<lparr>tagName = ''head'', attributes = [], appended = [bootstrap_script]\<rparr>"
    using h2 [rule_format, of 1 "[]"] d by (simp add: off)
  have 4: "rewritten (body r2) ! 3 =
          OutTag \<lparr>tagName = ''body'', attributes = [], appended = []\<rparr>"
    using b2 [rule_format, of 3 "[]"] d by (simp add: off)
  from r1 r2 1 2 3 4 show ?thesis
    by (auto simp add: userAgent_sample_request)
qed

section \<open>The blocklist\<close>

lemma rewriter_BLOCKLIST: "rewriter (cfg\<lparr>BLOCKLIST := bl\<rparr>) = rewriter cfg"
  by (simp add: rewriter_def HeadHandler_element_def BodyHandler_element_def devFeatures_def
      fun_eq_iff)

lemma respond_BLOCKLIST: "respond (cfg\<lparr>BLOCKLIST := bl\<rparr>) = respond cfg"
  by (simp add: respond_def rewriter_BLOCKLIST fun_eq_iff)

text \<open>
  C10. The handler's result does not depend on the \<open>BLOCKLIST\<close> field of the
  configuration: changing it changes neither the outcome nor the fetches. Whenever the
  decoded target is not empty the fetch of that target is issued, whatever the list holds.
\<close>

theorem handler_ignores_BLOCKLIST:
  "handler_with (cfg\<lparr>BLOCKLIST := bl\<rparr>) fetch req = handler_with cfg fetch req
   \<and> (decodeURIComponent (replace (pathname req) ''/proxy/'' []) = Inr u \<and> u \<noteq> [] \<longrightarrow>
        snd (handler_with (cfg\<lparr>BLOCKLIST := bl\<rparr>) fetch req) =
          [(u, [(''User-Agent'', userAgent req)])])"
  by (simp add: handler_with_def respond_BLOCKLIST Let_def split: sum.splits)

theorem handler_ignores_BLOCKLIST_witness:
  "handler_with (getEdgeConfig\<lparr>BLOCKLIST := [''example.com'']\<rparr>) fetch_page sample_request =
     handler fetch_page sample_request
   \<and> decodeURIComponent (replace (pathname sample_request) ''/proxy/'' []) =
       Inr ''https://example.com/''
   \<and> ''https://example.com/'' \<noteq> []
   \<and> snd (handler_with (getEdgeConfig\<lparr>BLOCKLIST := [''example.com'']\<rparr>) fetch_page sample_request) =
       [(''https://example.com/'', [(''User-Agent'', ''Mozilla/5.0'')])]"
  using handler_ignores_BLOCKLIST [where cfg = getEdgeConfig and bl = "[''example.com'']"
      and fetch = fetch_page and req = sample_request and u = "''https://example.com/''"]
    sample_request_decodes
  by (auto simp add: handler_def userAgent_sample_request)

section \<open>Round trip through the proxy path\<close>

text \<open>
  C5, as stated: decoding what follows \<open>/proxy/\<close> in the rewritten URL recovers \<open>u\<close>. For
  the client's \<open>URLUtils.rewrite\<close> it fails: \<open>encode\<close> serialises the parsed URL, and for
  \<open>https://example.com\<close> the decoded remainder is \<open>https://example.com/\<close>.
\<close>

theorem client_rewrite_recovers_normal_form_only:
  "URLUtils_rewrite href_sample ''https://example.com'' = ''/proxy/https%3A%2F%2Fexample.com%2F''
   \<and> URLUtils_decode (drop (length ''/proxy/'') (URLUtils_rewrite href_sample ''https://example.com''))
       = ''https://example.com/''
   \<and> URLUtils_decode (drop (length ''/proxy/'') (URLUtils_rewrite href_sample ''https://example.com''))
       \<noteq> ''https://example.com''"
  by code_simp

lemma client_rewrite_recovers_normal_form_input:
  "URLUtils_decode (drop (length ''/proxy/'') (URLUtils_rewrite href_sample ''https://example.com/x''))
     = ''https://example.com/x''"
  by code_simp

text \<open>
  C5, amended. Let \<open>u\<close> be a non-empty well-formed string that does not start with
  \<open>data:\<close>, \<open>javascript:\<close> or \<open>blob:\<close>, and let the host normalise it to the well-formed
  string \<open>a\<close>. Then \<open>decode (encode u)\<close> is \<open>a\<close>; the client's \<open>rewrite u\<close> starts with
  \<open>/proxy/\<close> and decoding the remainder gives \<open>a\<close>, the normal form of \<open>u\<close>; the edge
  function's \<open>rewriteUrl u\<close> starts with \<open>/proxy/\<close> and decoding the remainder gives \<open>u\<close>
  itself, which is also the target the handler extracts from that path.
\<close>

theorem codec_round_trip:
  assumes "u \<noteq> []" and "\<not> startsWith u ''data:''" and "\<not> startsWith u ''javascript:''"
    and "\<not> startsWith u ''blob:''" and "valid_utf8 u"
    and "href u = Some a" and "valid_utf8 a"
  shows "URLUtils_decode (URLUtils_encode href u) = a
    \<and> startsWith (URLUtils_rewrite href u) ''/proxy/''
    \<and> URLUtils_decode (drop (length ''/proxy/'') (URLUtils_rewrite href u)) = a
    \<and> startsWith (rewriteUrl u) ''/proxy/''
    \<and> URLUtils_decode (drop (length ''/proxy/'') (rewriteUrl u)) = u
    \<and> decodeURIComponent (replace (rewriteUrl u) ''/proxy/'' []) = Inr u"
proof -
  have enc: "URLUtils_encode href u = encodeURIComponent a"
    using assms(6) by (simp add: URLUtils_encode_def)
  have da: "URLUtils_decode (encodeURIComponent a) = a"
    using assms(7) by (simp add: URLUtils_decode_def decodeURIComponent_encodeURIComponent)
  have du: "URLUtils_decode (encodeURIComponent u) = u"
    using assms(5) by (simp add: URLUtils_decode_def decodeURIComponent_encodeURIComponent)
  have rw: "URLUtils_rewrite href u = ''/proxy/'' @ encodeURIComponent a"
    using assms(1-4) enc by (simp add: URLUtils_rewrite_def proxyEndpoint_def)
  have ru: "rewriteUrl u = ''/proxy/'' @ encodeURIComponent u"
    using assms(1-3) by (simp add: rewriteUrl_def)
  have rep: "replace (rewriteUrl u) ''/proxy/'' [] = encodeURIComponent u"
    unfolding ru by simp
  show ?thesis
    unfolding rep unfolding rw ru enc
    using da du assms(5) by (simp add: startsWith_def decodeURIComponent_encodeURIComponent)
qed

theorem codec_round_trip_witness:
  "''https://example.com'' \<noteq> [] \<and> \<not> startsWith ''https://example.com'' ''data:''
   \<and> \<not> startsWith ''https://example.com'' ''javascript:''
   \<and> \<not> startsWith ''https://example.com'' ''blob:''
   \<and> valid_utf8 ''https://example.com''
   \<and> href_sample ''https://example.com'' = Some ''https://example.com/''
   \<and> valid_utf8 ''https://example.com/''
   \<and> URLUtils_decode (URLUtils_encode href_sample ''https://example.com'') = ''https://example.com/''
   \<and> URLUtils_decode (drop (length ''/proxy/'') (URLUtils_rewrite href_sample ''https://example.com''))
       = ''https://example.com/''
   \<and> decodeURIComponent (replace (rewriteUrl ''https://example.com'') ''/proxy/'' []) =
       Inr ''https://example.com''"
proof -
  have 1: "''https://example.com'' \<noteq> []" by simp
  have 2: "\<not> startsWith ''https://example.com'' ''data:''" by (simp add: startsWith_def)
  have 3: "\<not> startsWith ''https://example.com'' ''javascript:''" by (simp add: startsWith_def)
  have 4: "\<not> startsWith ''https://example.com'' ''blob:''" by (simp add: startsWith_def)
  have 5: "valid_utf8 ''https://example.com''" by code_simp
  have 6: "href_sample ''https://example.com'' = Some ''https://example.com/''"
    by (simp add: href_sample_def)
  have 7: "valid_utf8 ''https://example.com/''" by code_simp
  show ?thesis
    using codec_round_trip [where href = href_sample, OF 1 2 3 4 5 6 7] 1 2 3 4 5 6 7 by simp
qed

end
